theory Spec2Isabelle
  imports Main "HOL-Library.AList"
begin

section \<open>Python values\<close>

text \<open>
  The values the program handles are what \<^verbatim>\<open>json.loads\<close> produces, together with
  \<^verbatim>\<open>None\<close>: JSON \<^verbatim>\<open>null\<close> decodes to \<^verbatim>\<open>None\<close>, so one constructor stands for both.
  A float is carried as Python's \<^verbatim>\<open>repr\<close> of it: the program only tests floats for
  truth and formats them. A dict is an association list in insertion order.
\<close>

datatype pyval =
    PNone
  | PBool bool
  | PInt int
  | PFloat string
  | PStr string
  | PList "pyval list"
  | PDict "(string \<times> pyval) list"

text \<open>Python's truth value, as used by \<^verbatim>\<open>if x:\<close> and \<^verbatim>\<open>not x\<close>.\<close>

fun truthy :: "pyval \<Rightarrow> bool" where
  "truthy PNone = False"
| "truthy (PBool b) = b"
| "truthy (PInt i) = (i \<noteq> 0)"
| "truthy (PFloat r) = (r \<noteq> ''0.0'' \<and> r \<noteq> ''-0.0'')"
| "truthy (PStr s) = (s \<noteq> [])"
| "truthy (PList xs) = (xs \<noteq> [])"
| "truthy (PDict kvs) = (kvs \<noteq> [])"

text \<open>
  \<^verbatim>\<open>str(x)\<close>, which an f-string applies to each placeholder. A string formats as itself;
  for every other value \<^verbatim>\<open>str\<close> is the interpreter's \<^verbatim>\<open>repr\<close>, passed in as \<open>rp\<close>.
\<close>

definition py_str :: "(pyval \<Rightarrow> string) \<Rightarrow> pyval \<Rightarrow> string" where
  "py_str rp v = (case v of PStr s \<Rightarrow> s | _ \<Rightarrow> rp v)"

text \<open>\<^verbatim>\<open>str(n)\<close> for an integer: decimal digits, a minus sign when negative.\<close>

definition digit_char :: "nat \<Rightarrow> char" where
  "digit_char n = ''0123456789'' ! (n mod 10)"

fun nat_digits :: "nat \<Rightarrow> string" where
  "nat_digits n =
     (if n < 10 then [digit_char n] else nat_digits (n div 10) @ [digit_char n])"

declare nat_digits.simps [simp del]

definition str_int :: "int \<Rightarrow> string" where
  "str_int i = (if i < 0 then CHR ''-'' # nat_digits (nat (- i)) else nat_digits (nat i))"

text \<open>\<^verbatim>\<open>sep.join(xs)\<close>.\<close>

fun join :: "string \<Rightarrow> string list \<Rightarrow> string" where
  "join sep [] = []"
| "join sep [x] = x"
| "join sep (x # y # ys) = x @ sep @ join sep (y # ys)"

section \<open>Exceptions\<close>

text \<open>
  The exception classes of \<^verbatim>\<open>main.py\<close>: \<^verbatim>\<open>GoogleSheetsAPIError\<close> and its five
  subclasses share one constructor \<^verbatim>\<open>(message, status_code=None, response_data=None)\<close>.
\<close>

datatype error_kind =
    GoogleSheetsAPIError
  | AuthenticationError
  | AuthorizationError
  | ResourceNotFoundError
  | QuotaExceededError
  | ValidationError

record api_error =
  kind :: error_kind
  message :: string
  status_code :: "int option"
  response_data :: pyval

text \<open>
  What a call can raise: an error of the family above, or an exception of the
  interpreter or of a library that no handler of the program catches.
\<close>

datatype exn =
    Raised api_error
  | AttributeError
  | TypeError
  | PydanticValidationError string

definition api_exn :: "error_kind \<Rightarrow> string \<Rightarrow> exn" where
  "api_exn k msg = Raised \<lparr>kind = k, message = msg, status_code = None, response_data = PNone\<rparr>"

text \<open>\<^verbatim>\<open>d.get(k, default)\<close>; on anything but a dict the attribute lookup fails.\<close>

definition dict_get :: "pyval \<Rightarrow> string \<Rightarrow> pyval \<Rightarrow> exn + pyval" where
  "dict_get d k dflt =
     (case d of
        PDict kvs \<Rightarrow> Inr (case map_of kvs k of Some v \<Rightarrow> v | None \<Rightarrow> dflt)
      | _ \<Rightarrow> Inl AttributeError)"

section \<open>The network and the process environment\<close>

text \<open>
  A \<^verbatim>\<open>requests.Response\<close>, by the four members the program reads: \<^verbatim>\<open>status_code\<close>,
  \<^verbatim>\<open>content\<close> (the body's bytes), \<^verbatim>\<open>text\<close> (the body decoded) and \<^verbatim>\<open>json()\<close>, which
  returns the decoded value or raises a decoding error with a message.
\<close>

record response =
  resp_status_code :: int
  resp_content :: string
  resp_text :: string
  resp_json :: "string + pyval"

text \<open>
  \<^verbatim>\<open>response.raise_for_status()\<close> of the library raises \<^verbatim>\<open>HTTPError\<close> for a status
  from 400 to 599, and \<^verbatim>\<open>response.ok\<close> is true exactly when it does not raise.
\<close>

definition http_error :: "response \<Rightarrow> bool" where
  "http_error r = (400 \<le> resp_status_code r \<and> resp_status_code r < 600)"

definition ok :: "response \<Rightarrow> bool" where
  "ok r = (\<not> http_error r)"

record request =
  req_method :: string
  req_url :: string
  req_headers :: "(string \<times> string) list"
  req_params :: pyval
  req_json :: pyval
  req_data :: pyval
  req_timeout :: nat

text \<open>
  The result of one \<^verbatim>\<open>requests\<close> call: a response, or one of the library's exceptions.
  \<open>RequestException\<close> stands for every exception of the library other than a timeout
  or a connection error, with its \<^verbatim>\<open>str\<close>.
\<close>

datatype net_outcome =
    Timeout
  | ConnectionError
  | RequestException string
  | Response response

text \<open>
  What the program does not define: the environment variables, the interpreter's
  \<^verbatim>\<open>repr\<close>, the answers of the broker and of the spreadsheet service (by the number of
  calls already made to each and the request sent), and the constructors of the
  pydantic models (by the model's name and the keyword arguments; \<open>Inl\<close> is the
  library's own validation error).
\<close>

record externals =
  os_environ :: "string \<Rightarrow> string option"
  py_repr :: "pyval \<Rightarrow> string"
  broker_reply :: "nat \<Rightarrow> request \<Rightarrow> net_outcome"
  api_reply :: "nat \<Rightarrow> request \<Rightarrow> net_outcome"
  pydantic_init :: "string \<Rightarrow> (string \<times> pyval) list \<Rightarrow> string + pyval"

text \<open>
  The mutable state: the global \<^verbatim>\<open>_cached_access_token\<close>, the requests sent so far to
  the broker and to the spreadsheet service, and the number of times
  \<^verbatim>\<open>get_connection_credentials\<close> has been entered.
\<close>

record state =
  cached_access_token :: pyval
  broker_log :: "request list"
  api_log :: "request list"
  provider_calls :: nat

definition broker_call :: "externals \<Rightarrow> request \<Rightarrow> state \<Rightarrow> net_outcome \<times> state" where
  "broker_call ext req s =
     (broker_reply ext (length (broker_log s)) req, s\<lparr>broker_log := broker_log s @ [req]\<rparr>)"

definition api_call :: "externals \<Rightarrow> request \<Rightarrow> state \<Rightarrow> net_outcome \<times> state" where
  "api_call ext req s =
     (api_reply ext (length (api_log s)) req, s\<lparr>api_log := api_log s @ [req]\<rparr>)"

text \<open>\<^verbatim>\<open>os.environ.get(var)\<close>.\<close>

definition getenv :: "externals \<Rightarrow> string \<Rightarrow> pyval" where
  "getenv ext var = (case os_environ ext var of Some v \<Rightarrow> PStr v | None \<Rightarrow> PNone)"

section \<open>Credentials and the token cache\<close>

definition BASE_URL :: string where
  "BASE_URL = ''https://sheets.googleapis.com''"

definition required_vars :: "string list" where
  "required_vars =
     [''NANGO_CONNECTION_ID'', ''NANGO_INTEGRATION_ID'', ''NANGO_BASE_URL'', ''NANGO_SECRET_KEY'']"

definition missing_vars :: "externals \<Rightarrow> string list" where
  "missing_vars ext = filter (\<lambda>var. \<not> truthy (getenv ext var)) required_vars"

text \<open>The request of \<^verbatim>\<open>get_connection_credentials\<close> (lines 73 to 86).\<close>

definition broker_request :: "externals \<Rightarrow> request" where
  "broker_request ext =
     (let id = getenv ext ''NANGO_CONNECTION_ID'';
          integration_id = getenv ext ''NANGO_INTEGRATION_ID'';
          base_url = getenv ext ''NANGO_BASE_URL'';
          secret_key = getenv ext ''NANGO_SECRET_KEY''
      in \<lparr>req_method = ''GET'',
          req_url = py_str (py_repr ext) base_url @ ''/connection/'' @ py_str (py_repr ext) id,
          req_headers = [(''Authorization'', ''Bearer '' @ py_str (py_repr ext) secret_key)],
          req_params = PDict [(''provider_config_key'', integration_id),
                              (''refresh_token'', PStr ''true'')],
          req_json = PNone,
          req_data = PNone,
          req_timeout = 30\<rparr>)"

text \<open>
  The \<^verbatim>\<open>try\<close> block of \<^verbatim>\<open>get_connection_credentials\<close> and its handlers, on the outcome
  of the request (lines 87 to 101).
\<close>

definition credentials_of_outcome :: "net_outcome \<Rightarrow> exn + pyval" where
  "credentials_of_outcome out =
     (case out of
        Timeout \<Rightarrow>
          Inl (api_exn AuthenticationError
                 ''Timeout while connecting to Nango authentication service'')
      | ConnectionError \<Rightarrow>
          Inl (api_exn AuthenticationError
                 ''Failed to connect to Nango authentication service'')
      | RequestException msg \<Rightarrow>
          Inl (api_exn AuthenticationError
                 (''Unexpected error getting Nango credentials: '' @ msg))
      | Response r \<Rightarrow>
          if http_error r then
            (if resp_status_code r = 401 then
               Inl (api_exn AuthenticationError ''Invalid Nango secret key'')
             else if resp_status_code r = 404 then
               Inl (api_exn AuthenticationError ''Nango connection not found'')
             else
               Inl (api_exn AuthenticationError
                      (''Nango API error: '' @ str_int (resp_status_code r) @ '' - ''
                         @ resp_text r)))
          else
            (case resp_json r of
               Inr v \<Rightarrow> Inr v
             | Inl msg \<Rightarrow>
                 Inl (api_exn AuthenticationError
                        (''Unexpected error getting Nango credentials: '' @ msg))))"

definition get_connection_credentials :: "externals \<Rightarrow> state \<Rightarrow> (exn + pyval) \<times> state" where
  "get_connection_credentials ext s0 =
     (let s = s0\<lparr>provider_calls := Suc (provider_calls s0)\<rparr> in
      if missing_vars ext \<noteq> [] then
        (Inl (api_exn AuthenticationError
                (''Missing required environment variables: ''
                   @ join '', '' (missing_vars ext))), s)
      else
        (case broker_call ext (broker_request ext) s of
           (out, s') \<Rightarrow> (credentials_of_outcome out, s')))"

definition get_access_token :: "externals \<Rightarrow> state \<Rightarrow> (exn + pyval) \<times> state" where
  "get_access_token ext s =
     (if cached_access_token s = PNone then
        (case get_connection_credentials ext s of
           (Inl e, s1) \<Rightarrow> (Inl e, s1)
         | (Inr credentials, s1) \<Rightarrow>
             (case dict_get credentials ''credentials'' (PDict []) of
                Inl e \<Rightarrow> (Inl e, s1)
              | Inr c \<Rightarrow>
                  (case dict_get c ''access_token'' PNone of
                     Inl e \<Rightarrow> (Inl e, s1)
                   | Inr tok \<Rightarrow>
                       (let s2 = s1\<lparr>cached_access_token := tok\<rparr> in
                        if \<not> truthy tok then
                          (Inl (api_exn AuthenticationError
                                  ''No access token found in Nango credentials''), s2)
                        else (Inr tok, s2)))))
      else (Inr (cached_access_token s), s))"

definition refresh_access_token :: "externals \<Rightarrow> state \<Rightarrow> (exn + pyval) \<times> state" where
  "refresh_access_token ext s = get_access_token ext (s\<lparr>cached_access_token := PNone\<rparr>)"

section \<open>The request executor\<close>

text \<open>
  \<^verbatim>\<open>_raise_for_status\<close> (the leading underscore is not an Isabelle name). First the
  message (lines 216 to 220): the \<^verbatim>\<open>try\<close> block reads \<^verbatim>\<open>error.message\<close> from the decoded
  body, with the body's text as the default of the inner \<^verbatim>\<open>get\<close>; the bare \<^verbatim>\<open>except\<close>
  catches both a decoding error and a failed attribute lookup.
\<close>

definition fallback_message :: "response \<Rightarrow> pyval" where
  "fallback_message r =
     (if resp_text r \<noteq> [] then PStr (resp_text r)
      else PStr (''HTTP '' @ str_int (resp_status_code r) @ '' error''))"

definition error_message_of :: "response \<Rightarrow> pyval" where
  "error_message_of r =
     (case resp_json r of
        Inl _ \<Rightarrow> fallback_message r
      | Inr error_data \<Rightarrow>
          (case dict_get error_data ''error'' (PDict []) of
             Inl _ \<Rightarrow> fallback_message r
           | Inr e \<Rightarrow>
               (case dict_get e ''message'' (PStr (resp_text r)) of
                  Inl _ \<Rightarrow> fallback_message r
                | Inr m \<Rightarrow> m)))"

text \<open>\<^verbatim>\<open>error_data if 'error_data' in locals() else None\<close>.\<close>

definition error_data_of :: "response \<Rightarrow> pyval" where
  "error_data_of r = (case resp_json r of Inr error_data \<Rightarrow> error_data | Inl _ \<Rightarrow> PNone)"

definition raise_for_status :: "externals \<Rightarrow> response \<Rightarrow> exn + unit" where
  "raise_for_status ext r =
     (if ok r then Inr ()
      else
        (let status = resp_status_code r;
             error_message = py_str (py_repr ext) (error_message_of r);
             raise = (\<lambda>k msg. Inl (Raised \<lparr>kind = k, message = msg,
                        status_code = Some status, response_data = error_data_of r\<rparr>))
         in if status = 400 then raise ValidationError (''Bad request: '' @ error_message)
            else if status = 401 then
              raise AuthenticationError (''Authentication failed: '' @ error_message)
            else if status = 403 then
              raise AuthorizationError (''Permission denied: '' @ error_message)
            else if status = 404 then
              raise ResourceNotFoundError (''Resource not found: '' @ error_message)
            else if status = 429 then
              raise QuotaExceededError (''Quota exceeded: '' @ error_message)
            else if 500 \<le> status \<and> status < 600 then
              raise GoogleSheetsAPIError (''Server error: '' @ error_message)
            else
              raise GoogleSheetsAPIError
                (''HTTP '' @ str_int status @ '': '' @ error_message)))"

text \<open>Lines 250 to 256 of \<^verbatim>\<open>make_api_request\<close>: the token, unless the caller sent one.\<close>

definition prepare_headers ::
  "externals \<Rightarrow> (string \<times> string) list option \<Rightarrow> state
     \<Rightarrow> (exn + (string \<times> string) list) \<times> state" where
  "prepare_headers ext headers s =
     (let hs = (case headers of Some h \<Rightarrow> h | None \<Rightarrow> []) in
      if hs = [] \<or> map_of hs ''Authorization'' = None then
        (case get_access_token ext s of
           (Inl e, s1) \<Rightarrow> (Inl e, s1)
         | (Inr access_token, s1) \<Rightarrow>
             (Inr (AList.update ''Content-Type'' ''application/json''
                     (AList.update ''Authorization''
                        (''Bearer '' @ py_str (py_repr ext) access_token) hs)), s1))
      else (Inr hs, s))"

text \<open>
  The \<^verbatim>\<open>try\<close> block of \<^verbatim>\<open>make_api_request\<close> around a request: the handlers of lines
  297 to 302 turn an exception of \<^verbatim>\<open>requests.request\<close> into the base error; on a
  response the block goes on with \<open>k\<close>.
\<close>

definition on_response ::
  "net_outcome \<times> state \<Rightarrow> (response \<Rightarrow> state \<Rightarrow> (exn + 'a) \<times> state) \<Rightarrow> (exn + 'a) \<times> state" where
  "on_response os k =
     (case os of
        (Timeout, s) \<Rightarrow>
          (Inl (api_exn GoogleSheetsAPIError
                  ''Request timeout - Google Sheets API did not respond in time''), s)
      | (ConnectionError, s) \<Rightarrow>
          (Inl (api_exn GoogleSheetsAPIError
                  ''Connection error - Unable to reach Google Sheets API''), s)
      | (RequestException msg, s) \<Rightarrow>
          (Inl (api_exn GoogleSheetsAPIError (''Request failed: '' @ msg)), s)
      | (Response r, s) \<Rightarrow> k r s)"

definition api_request ::
  "string \<Rightarrow> string \<Rightarrow> (string \<times> string) list \<Rightarrow> pyval \<Rightarrow> pyval \<Rightarrow> pyval \<Rightarrow> request" where
  "api_request method endpoint hs params json_data data =
     \<lparr>req_method = method, req_url = BASE_URL @ endpoint, req_headers = hs,
      req_params = params, req_json = json_data, req_data = data, req_timeout = 30\<rparr>"

text \<open>
  Lines 248 to 282 of \<^verbatim>\<open>make_api_request\<close>: the request, and on a 401 with
  \<^verbatim>\<open>retry_auth\<close> the refreshed token and the second request. The result is the value of
  the variable \<^verbatim>\<open>response\<close> at line 284, or the exception raised before.
\<close>

definition exchange ::
  "externals \<Rightarrow> string \<Rightarrow> string \<Rightarrow> (string \<times> string) list option \<Rightarrow> pyval \<Rightarrow> pyval
     \<Rightarrow> pyval \<Rightarrow> bool \<Rightarrow> state \<Rightarrow> (exn + response) \<times> state" where
  "exchange ext method endpoint headers params json_data data retry_auth s =
     (case prepare_headers ext headers s of
        (Inl e, s1) \<Rightarrow> (Inl e, s1)
      | (Inr hs, s1) \<Rightarrow>
          on_response
            (api_call ext (api_request method endpoint hs params json_data data) s1)
            (\<lambda>r s2.
               if resp_status_code r = 401 \<and> retry_auth then
                 (case refresh_access_token ext s2 of
                    (Inl e, s3) \<Rightarrow> (Inl e, s3)
                  | (Inr access_token, s3) \<Rightarrow>
                      (let hs' = AList.update ''Authorization''
                                   (''Bearer '' @ py_str (py_repr ext) access_token) hs
                       in on_response
                            (api_call ext
                               (api_request method endpoint hs' params json_data data) s3)
                            (\<lambda>r' s4. (Inr r', s4))))
               else (Inr r, s2)))"

text \<open>Lines 284 to 295: the status check, then the body.\<close>

definition parse_body :: "response \<Rightarrow> pyval" where
  "parse_body r =
     (if resp_content r \<noteq> [] then
        (case resp_json r of
           Inr v \<Rightarrow> v
         | Inl _ \<Rightarrow> PDict [(''content'', PStr (resp_text r))])
      else PNone)"

definition make_api_request ::
  "externals \<Rightarrow> string \<Rightarrow> string \<Rightarrow> (string \<times> string) list option \<Rightarrow> pyval \<Rightarrow> pyval
     \<Rightarrow> pyval \<Rightarrow> bool \<Rightarrow> state \<Rightarrow> (exn + pyval) \<times> state" where
  "make_api_request ext method endpoint headers params json_data data retry_auth s =
     (case exchange ext method endpoint headers params json_data data retry_auth s of
        (Inl e, s') \<Rightarrow> (Inl e, s')
      | (Inr response, s') \<Rightarrow>
          (case raise_for_status ext response of
             Inl e \<Rightarrow> (Inl e, s')
           | Inr _ \<Rightarrow> (Inr (parse_body response), s')))"

section \<open>The operations\<close>

text \<open>
  Helpers for the statements that fill a dict: \<^verbatim>\<open>if v: d[k] = v\<close> for an optional string
  and for an optional list, \<^verbatim>\<open>if v is not None: d[k] = v\<close> for an optional flag.
\<close>

type_synonym pydict = "(string \<times> pyval) list"

definition put_str :: "string \<Rightarrow> string option \<Rightarrow> pydict \<Rightarrow> pydict" where
  "put_str k v d =
     (case v of Some x \<Rightarrow> if x \<noteq> [] then AList.update k (PStr x) d else d | None \<Rightarrow> d)"

definition put_flag :: "string \<Rightarrow> bool option \<Rightarrow> pydict \<Rightarrow> pydict" where
  "put_flag k v d = (case v of Some b \<Rightarrow> AList.update k (PBool b) d | None \<Rightarrow> d)"

definition put_list :: "string \<Rightarrow> pyval list option \<Rightarrow> pydict \<Rightarrow> pydict" where
  "put_list k v d =
     (case v of Some xs \<Rightarrow> if xs \<noteq> [] then AList.update k (PList xs) d else d | None \<Rightarrow> d)"

definition strs :: "string list \<Rightarrow> pyval" where
  "strs xs = PList (map PStr xs)"

text \<open>
  \<^verbatim>\<open>Model(**response_data)\<close>: unpacking anything but a mapping is a \<^verbatim>\<open>TypeError\<close>; on a
  dict the model's constructor validates the fields.
\<close>

definition construct :: "externals \<Rightarrow> string \<Rightarrow> pyval \<Rightarrow> exn + pyval" where
  "construct ext model v =
     (case v of
        PDict kw \<Rightarrow>
          (case pydantic_init ext model kw of
             Inl msg \<Rightarrow> Inl (PydanticValidationError msg)
           | Inr inst \<Rightarrow> Inr inst)
      | _ \<Rightarrow> Inl TypeError)"

definition as_model ::
  "externals \<Rightarrow> string \<Rightarrow> (exn + pyval) \<times> state \<Rightarrow> (exn + pyval) \<times> state" where
  "as_model ext model res =
     (case res of
        (Inl e, s) \<Rightarrow> (Inl e, s)
      | (Inr rd, s) \<Rightarrow> (construct ext model rd, s))"

definition invalid :: "string \<Rightarrow> state \<Rightarrow> (exn + pyval) \<times> state" where
  "invalid msg s = (Inl (api_exn ValidationError msg), s)"

definition value_input_options :: "string list" where
  "value_input_options = [''RAW'', ''USER_ENTERED'']"

definition bad_option :: string where
  "bad_option = ''value_input_option must be '' @ [CHR 0x27] @ ''RAW'' @ [CHR 0x27]
     @ '' or '' @ [CHR 0x27] @ ''USER_ENTERED'' @ [CHR 0x27]"

definition spreadsheets_create ::
  "externals \<Rightarrow> string \<Rightarrow> string option \<Rightarrow> string option \<Rightarrow> string option \<Rightarrow> pyval list option
     \<Rightarrow> state \<Rightarrow> (exn + pyval) \<times> state" where
  "spreadsheets_create ext title locale auto_recalc time_zone sheets s =
     (if title = [] then invalid ''title is required'' s
      else
        (let properties = [(''title'', PStr title)];
             properties = put_str ''locale'' locale properties;
             properties = put_str ''autoRecalc'' auto_recalc properties;
             properties = put_str ''timeZone'' time_zone properties;
             json_data = [(''properties'', PDict properties)];
             json_data = put_list ''sheets'' sheets json_data
         in as_model ext ''Spreadsheet''
              (make_api_request ext ''POST'' ''/v4/spreadsheets'' None PNone (PDict json_data)
                 PNone True s)))"

definition spreadsheets_get ::
  "externals \<Rightarrow> string \<Rightarrow> string list option \<Rightarrow> bool option \<Rightarrow> string option \<Rightarrow> state
     \<Rightarrow> (exn + pyval) \<times> state" where
  "spreadsheets_get ext spreadsheet_id ranges include_grid_data fields' s =
     (if spreadsheet_id = [] then invalid ''spreadsheet_id is required'' s
      else
        (let params = [];
             params = put_list ''ranges'' (map_option (map PStr) ranges) params;
             params = put_flag ''includeGridData'' include_grid_data params;
             params = put_str ''fields'' fields' params
         in as_model ext ''Spreadsheet''
              (make_api_request ext ''GET'' (''/v4/spreadsheets/'' @ spreadsheet_id) None
                  (PDict params) PNone PNone True s)))"

definition spreadsheets_batch_update ::
  "externals \<Rightarrow> string \<Rightarrow> pyval list \<Rightarrow> bool option \<Rightarrow> string list option \<Rightarrow> bool option \<Rightarrow> state
     \<Rightarrow> (exn + pyval) \<times> state" where
  "spreadsheets_batch_update ext spreadsheet_id requests include_spreadsheet_in_response
     response_ranges response_include_grid_data s =
     (if spreadsheet_id = [] then invalid ''spreadsheet_id is required'' s
      else if requests = [] then invalid ''requests is required'' s
      else
        (let json_data = [(''requests'', PList requests)];
             json_data = put_flag ''includeSpreadsheetInResponse''
                           include_spreadsheet_in_response json_data;
             json_data = put_list ''responseRanges'' (map_option (map PStr) response_ranges)
                           json_data;
             json_data = put_flag ''responseIncludeGridData'' response_include_grid_data
                           json_data
         in as_model ext ''BatchUpdateResponse''
              (make_api_request ext ''POST''
                  (''/v4/spreadsheets/'' @ spreadsheet_id @ '':batchUpdate'') None PNone
                  (PDict json_data) PNone True s)))"

definition spreadsheets_get_by_data_filter ::
  "externals \<Rightarrow> string \<Rightarrow> pyval list \<Rightarrow> bool option \<Rightarrow> state \<Rightarrow> (exn + pyval) \<times> state" where
  "spreadsheets_get_by_data_filter ext spreadsheet_id data_filters include_grid_data s =
     (if spreadsheet_id = [] then invalid ''spreadsheet_id is required'' s
      else if data_filters = [] then invalid ''data_filters is required'' s
      else
        (let json_data = [(''dataFilters'', PList data_filters)];
             json_data = put_flag ''includeGridData'' include_grid_data json_data
         in as_model ext ''Spreadsheet''
              (make_api_request ext ''POST''
                  (''/v4/spreadsheets/'' @ spreadsheet_id @ '':getByDataFilter'') None PNone
                  (PDict json_data) PNone True s)))"

definition values_get ::
  "externals \<Rightarrow> string \<Rightarrow> string \<Rightarrow> string option \<Rightarrow> string option \<Rightarrow> string option \<Rightarrow> state
     \<Rightarrow> (exn + pyval) \<times> state" where
  "values_get ext spreadsheet_id rng major_dimension value_render_option
     date_time_render_option s =
     (if spreadsheet_id = [] then invalid ''spreadsheet_id is required'' s
      else if rng = [] then invalid ''range is required'' s
      else
        (let params = [];
             params = put_str ''majorDimension'' major_dimension params;
             params = put_str ''valueRenderOption'' value_render_option params;
             params = put_str ''dateTimeRenderOption'' date_time_render_option params
         in as_model ext ''ValueRange''
              (make_api_request ext ''GET''
                  (''/v4/spreadsheets/'' @ spreadsheet_id @ ''/values/'' @ rng) None
                  (PDict params) PNone PNone True s)))"

definition values_update ::
  "externals \<Rightarrow> string \<Rightarrow> string \<Rightarrow> pyval list list \<Rightarrow> string \<Rightarrow> string option \<Rightarrow> bool option
     \<Rightarrow> string option \<Rightarrow> string option \<Rightarrow> state \<Rightarrow> (exn + pyval) \<times> state" where
  "values_update ext spreadsheet_id rng values value_input_option major_dimension
     include_values_in_response response_value_render_option
     response_date_time_render_option s =
     (if spreadsheet_id = [] then invalid ''spreadsheet_id is required'' s
      else if rng = [] then invalid ''range is required'' s
      else if values = [] then invalid ''values is required'' s
      else if value_input_option \<notin> set value_input_options then invalid bad_option s
      else
        (let params = [(''valueInputOption'', PStr value_input_option)];
             params = put_flag ''includeValuesInResponse'' include_values_in_response params;
             params = put_str ''responseValueRenderOption'' response_value_render_option
                        params;
             params = put_str ''responseDateTimeRenderOption''
                        response_date_time_render_option params;
             json_data = [(''values'', PList (map PList values))];
             json_data = put_str ''majorDimension'' major_dimension json_data
         in make_api_request ext ''PUT''
            (''/v4/spreadsheets/'' @ spreadsheet_id @ ''/values/'' @ rng) None (PDict params)
            (PDict json_data) PNone True s))"

definition values_append ::
  "externals \<Rightarrow> string \<Rightarrow> string \<Rightarrow> pyval list list \<Rightarrow> string \<Rightarrow> string option \<Rightarrow> string option
     \<Rightarrow> bool option \<Rightarrow> string option \<Rightarrow> string option \<Rightarrow> state \<Rightarrow> (exn + pyval) \<times> state" where
  "values_append ext spreadsheet_id rng values value_input_option major_dimension
     insert_data_option include_values_in_response response_value_render_option
     response_date_time_render_option s =
     (if spreadsheet_id = [] then invalid ''spreadsheet_id is required'' s
      else if rng = [] then invalid ''range is required'' s
      else if values = [] then invalid ''values is required'' s
      else if value_input_option \<notin> set value_input_options then invalid bad_option s
      else
        (let params = [(''valueInputOption'', PStr value_input_option)];
             params = put_str ''insertDataOption'' insert_data_option params;
             params = put_flag ''includeValuesInResponse'' include_values_in_response params;
             params = put_str ''responseValueRenderOption'' response_value_render_option
                        params;
             params = put_str ''responseDateTimeRenderOption''
                        response_date_time_render_option params;
             json_data = [(''values'', PList (map PList values))];
             json_data = put_str ''majorDimension'' major_dimension json_data
         in make_api_request ext ''POST''
            (''/v4/spreadsheets/'' @ spreadsheet_id @ ''/values/'' @ rng @ '':append'') None
            (PDict params) (PDict json_data) PNone True s))"

definition values_clear ::
  "externals \<Rightarrow> string \<Rightarrow> string \<Rightarrow> state \<Rightarrow> (exn + pyval) \<times> state" where
  "values_clear ext spreadsheet_id rng s =
     (if spreadsheet_id = [] then invalid ''spreadsheet_id is required'' s
      else if rng = [] then invalid ''range is required'' s
      else
        make_api_request ext ''POST''
           (''/v4/spreadsheets/'' @ spreadsheet_id @ ''/values/'' @ rng @ '':clear'') None PNone
           (PDict []) PNone True s)"

definition values_batch_get ::
  "externals \<Rightarrow> string \<Rightarrow> string list \<Rightarrow> string option \<Rightarrow> string option \<Rightarrow> string option \<Rightarrow> state
     \<Rightarrow> (exn + pyval) \<times> state" where
  "values_batch_get ext spreadsheet_id ranges major_dimension value_render_option
     date_time_render_option s =
     (if spreadsheet_id = [] then invalid ''spreadsheet_id is required'' s
      else if ranges = [] then invalid ''ranges is required'' s
      else
        (let params = [(''ranges'', strs ranges)];
             params = put_str ''majorDimension'' major_dimension params;
             params = put_str ''valueRenderOption'' value_render_option params;
             params = put_str ''dateTimeRenderOption'' date_time_render_option params
         in as_model ext ''BatchGetValuesResponse''
              (make_api_request ext ''GET''
                  (''/v4/spreadsheets/'' @ spreadsheet_id @ ''/values:batchGet'') None
                  (PDict params) PNone PNone True s)))"

definition values_batch_update ::
  "externals \<Rightarrow> string \<Rightarrow> pyval list \<Rightarrow> string \<Rightarrow> bool option \<Rightarrow> string option \<Rightarrow> string option
     \<Rightarrow> state \<Rightarrow> (exn + pyval) \<times> state" where
  "values_batch_update ext spreadsheet_id data value_input_option include_values_in_response
     response_value_render_option response_date_time_render_option s =
     (if spreadsheet_id = [] then invalid ''spreadsheet_id is required'' s
      else if data = [] then invalid ''data is required'' s
      else if value_input_option \<notin> set value_input_options then invalid bad_option s
      else
        (let json_data = [(''data'', PList data),
                          (''valueInputOption'', PStr value_input_option)];
             json_data = put_flag ''includeValuesInResponse'' include_values_in_response
                           json_data;
             json_data = put_str ''responseValueRenderOption'' response_value_render_option
                           json_data;
             json_data = put_str ''responseDateTimeRenderOption''
                           response_date_time_render_option json_data
         in as_model ext ''BatchUpdateValuesResponse''
              (make_api_request ext ''POST''
                  (''/v4/spreadsheets/'' @ spreadsheet_id @ ''/values:batchUpdate'') None PNone
                  (PDict json_data) PNone True s)))"

definition values_batch_clear ::
  "externals \<Rightarrow> string \<Rightarrow> string list \<Rightarrow> state \<Rightarrow> (exn + pyval) \<times> state" where
  "values_batch_clear ext spreadsheet_id ranges s =
     (if spreadsheet_id = [] then invalid ''spreadsheet_id is required'' s
      else if ranges = [] then invalid ''ranges is required'' s
      else
        as_model ext ''BatchClearValuesResponse''
          (make_api_request ext ''POST''
              (''/v4/spreadsheets/'' @ spreadsheet_id @ ''/values:batchClear'') None PNone
              (PDict [(''ranges'', strs ranges)]) PNone True s))"

definition values_batch_get_by_data_filter ::
  "externals \<Rightarrow> string \<Rightarrow> pyval list \<Rightarrow> string option \<Rightarrow> string option \<Rightarrow> string option \<Rightarrow> state
     \<Rightarrow> (exn + pyval) \<times> state" where
  "values_batch_get_by_data_filter ext spreadsheet_id data_filters major_dimension
     value_render_option date_time_render_option s =
     (if spreadsheet_id = [] then invalid ''spreadsheet_id is required'' s
      else if data_filters = [] then invalid ''data_filters is required'' s
      else
        (let json_data = [(''dataFilters'', PList data_filters)];
             json_data = put_str ''majorDimension'' major_dimension json_data;
             json_data = put_str ''valueRenderOption'' value_render_option json_data;
             json_data = put_str ''dateTimeRenderOption'' date_time_render_option json_data
         in make_api_request ext ''POST''
            (''/v4/spreadsheets/'' @ spreadsheet_id @ ''/values:batchGetByDataFilter'') None
            PNone (PDict json_data) PNone True s))"

definition values_batch_update_by_data_filter ::
  "externals \<Rightarrow> string \<Rightarrow> pyval list \<Rightarrow> string \<Rightarrow> bool option \<Rightarrow> string option \<Rightarrow> string option
     \<Rightarrow> state \<Rightarrow> (exn + pyval) \<times> state" where
  "values_batch_update_by_data_filter ext spreadsheet_id data value_input_option
     include_values_in_response response_value_render_option
     response_date_time_render_option s =
     (if spreadsheet_id = [] then invalid ''spreadsheet_id is required'' s
      else if data = [] then invalid ''data is required'' s
      else if value_input_option \<notin> set value_input_options then invalid bad_option s
      else
        (let json_data = [(''data'', PList data),
                          (''valueInputOption'', PStr value_input_option)];
             json_data = put_flag ''includeValuesInResponse'' include_values_in_response
                           json_data;
             json_data = put_str ''responseValueRenderOption'' response_value_render_option
                           json_data;
             json_data = put_str ''responseDateTimeRenderOption''
                           response_date_time_render_option json_data
         in make_api_request ext ''POST''
            (''/v4/spreadsheets/'' @ spreadsheet_id @ ''/values:batchUpdateByDataFilter'') None
            PNone (PDict json_data) PNone True s))"

definition values_batch_clear_by_data_filter ::
  "externals \<Rightarrow> string \<Rightarrow> pyval list \<Rightarrow> state \<Rightarrow> (exn + pyval) \<times> state" where
  "values_batch_clear_by_data_filter ext spreadsheet_id data_filters s =
     (if spreadsheet_id = [] then invalid ''spreadsheet_id is required'' s
      else if data_filters = [] then invalid ''data_filters is required'' s
      else
        make_api_request ext ''POST''
           (''/v4/spreadsheets/'' @ spreadsheet_id @ ''/values:batchClearByDataFilter'') None
           PNone (PDict [(''dataFilters'', PList data_filters)]) PNone True s)"

definition developer_metadata_get ::
  "externals \<Rightarrow> string \<Rightarrow> int \<Rightarrow> state \<Rightarrow> (exn + pyval) \<times> state" where
  "developer_metadata_get ext spreadsheet_id metadata_id s =
     (if spreadsheet_id = [] then invalid ''spreadsheet_id is required'' s
      else if metadata_id = 0 then invalid ''metadata_id is required'' s
      else
        as_model ext ''DeveloperMetadata''
          (make_api_request ext ''GET''
             (''/v4/spreadsheets/'' @ spreadsheet_id @ ''/developerMetadata/'' @ str_int
                 metadata_id)
             None PNone PNone PNone True s))"

definition developer_metadata_search ::
  "externals \<Rightarrow> string \<Rightarrow> pyval list \<Rightarrow> state \<Rightarrow> (exn + pyval) \<times> state" where
  "developer_metadata_search ext spreadsheet_id data_filters s =
     (if spreadsheet_id = [] then invalid ''spreadsheet_id is required'' s
      else if data_filters = [] then invalid ''data_filters is required'' s
      else
        as_model ext ''SearchDeveloperMetadataResponse''
          (make_api_request ext ''POST''
              (''/v4/spreadsheets/'' @ spreadsheet_id @ ''/developerMetadata:search'') None
              PNone (PDict [(''dataFilters'', PList data_filters)]) PNone True s))"

section \<open>The operation surface\<close>

text \<open>
  One constructor for each operation registered with \<^verbatim>\<open>@mcp.tool()\<close> that takes arguments
  and sends a request, with the arguments in the order of its signature.
\<close>

datatype tool_call =
    Spreadsheets_create string "string option" "string option" "string option"
      "pyval list option"
  | Spreadsheets_get string "string list option" "bool option" "string option"
  | Spreadsheets_batch_update string "pyval list" "bool option" "string list option"
      "bool option"
  | Spreadsheets_get_by_data_filter string "pyval list" "bool option"
  | Values_get string string "string option" "string option" "string option"
  | Values_update string string "pyval list list" string "string option" "bool option" "string
     option" "string option"
  | Values_append string string "pyval list list" string "string option" "string option" "bool
     option" "string option" "string option"
  | Values_clear string string
  | Values_batch_get string "string list" "string option" "string option" "string option"
  | Values_batch_update string "pyval list" string "bool option" "string option" "string option"
  | Values_batch_clear string "string list"
  | Values_batch_get_by_data_filter string "pyval list" "string option" "string option" "string
     option"
  | Values_batch_update_by_data_filter string "pyval list" string "bool option" "string option"
     "string option"
  | Values_batch_clear_by_data_filter string "pyval list"
  | Developer_metadata_get string int
  | Developer_metadata_search string "pyval list"

fun invoke :: "externals \<Rightarrow> tool_call \<Rightarrow> state \<Rightarrow> (exn + pyval) \<times> state" where
  "invoke ext (Spreadsheets_create title locale auto_recalc time_zone sheets) s =
     spreadsheets_create ext title locale auto_recalc time_zone sheets s"
| "invoke ext (Spreadsheets_get spreadsheet_id ranges include_grid_data fields') s =
     spreadsheets_get ext spreadsheet_id ranges include_grid_data fields' s"
| "invoke ext (Spreadsheets_batch_update spreadsheet_id requests
     include_spreadsheet_in_response response_ranges response_include_grid_data) s =
     spreadsheets_batch_update ext spreadsheet_id requests include_spreadsheet_in_response
        response_ranges response_include_grid_data s"
| "invoke ext (Spreadsheets_get_by_data_filter spreadsheet_id data_filters include_grid_data) s =
     spreadsheets_get_by_data_filter ext spreadsheet_id data_filters include_grid_data s"
| "invoke ext (Values_get spreadsheet_id rng major_dimension value_render_option
     date_time_render_option) s =
     values_get ext spreadsheet_id rng major_dimension value_render_option
        date_time_render_option s"
| "invoke ext (Values_update spreadsheet_id rng values value_input_option major_dimension
     include_values_in_response response_value_render_option
     response_date_time_render_option) s =
     values_update ext spreadsheet_id rng values value_input_option major_dimension
        include_values_in_response response_value_render_option
        response_date_time_render_option s"
| "invoke ext (Values_append spreadsheet_id rng values value_input_option major_dimension
     insert_data_option include_values_in_response response_value_render_option
     response_date_time_render_option) s =
     values_append ext spreadsheet_id rng values value_input_option major_dimension
        insert_data_option include_values_in_response response_value_render_option
        response_date_time_render_option s"
| "invoke ext (Values_clear spreadsheet_id rng) s =
     values_clear ext spreadsheet_id rng s"
| "invoke ext (Values_batch_get spreadsheet_id ranges major_dimension value_render_option
     date_time_render_option) s =
     values_batch_get ext spreadsheet_id ranges major_dimension value_render_option
        date_time_render_option s"
| "invoke ext (Values_batch_update spreadsheet_id data value_input_option
     include_values_in_response response_value_render_option
     response_date_time_render_option) s =
     values_batch_update ext spreadsheet_id data value_input_option
        include_values_in_response response_value_render_option
        response_date_time_render_option s"
| "invoke ext (Values_batch_clear spreadsheet_id ranges) s =
     values_batch_clear ext spreadsheet_id ranges s"
| "invoke ext (Values_batch_get_by_data_filter spreadsheet_id data_filters major_dimension
     value_render_option date_time_render_option) s =
     values_batch_get_by_data_filter ext spreadsheet_id data_filters major_dimension
        value_render_option date_time_render_option s"
| "invoke ext (Values_batch_update_by_data_filter spreadsheet_id data value_input_option
     include_values_in_response response_value_render_option
     response_date_time_render_option) s =
     values_batch_update_by_data_filter ext spreadsheet_id data value_input_option
        include_values_in_response response_value_render_option
        response_date_time_render_option s"
| "invoke ext (Values_batch_clear_by_data_filter spreadsheet_id data_filters) s =
     values_batch_clear_by_data_filter ext spreadsheet_id data_filters s"
| "invoke ext (Developer_metadata_get spreadsheet_id metadata_id) s =
     developer_metadata_get ext spreadsheet_id metadata_id s"
| "invoke ext (Developer_metadata_search spreadsheet_id data_filters) s =
     developer_metadata_search ext spreadsheet_id data_filters s"

text \<open>
  The local precondition checks, as the specification names them: a required argument
  (one without a default in the signature, and the title of a new spreadsheet) is missing,
  that is empty, or 0 for the integer \<^verbatim>\<open>metadata_id\<close>; or \<^verbatim>\<open>value_input_option\<close> is
  neither \<^verbatim>\<open>RAW\<close> nor \<^verbatim>\<open>USER_ENTERED\<close>.
\<close>

fun fails_local_check :: "tool_call \<Rightarrow> bool" where
  "fails_local_check (Spreadsheets_create title _ _ _ _) =
     (title = [])"
| "fails_local_check (Spreadsheets_get spreadsheet_id _ _ _) =
     (spreadsheet_id = [])"
| "fails_local_check (Spreadsheets_batch_update spreadsheet_id requests _ _ _) =
     (spreadsheet_id = [] \<or> requests = [])"
| "fails_local_check (Spreadsheets_get_by_data_filter spreadsheet_id data_filters _) =
     (spreadsheet_id = [] \<or> data_filters = [])"
| "fails_local_check (Values_get spreadsheet_id rng _ _ _) =
     (spreadsheet_id = [] \<or> rng = [])"
| "fails_local_check (Values_update spreadsheet_id rng values value_input_option _ _ _ _) =
     (spreadsheet_id = [] \<or> rng = [] \<or> values = [] \<or> value_input_option \<notin> {''RAW'', ''USER_ENTERED''})"
| "fails_local_check (Values_append spreadsheet_id rng values value_input_option _ _ _ _ _) =
     (spreadsheet_id = [] \<or> rng = [] \<or> values = [] \<or> value_input_option \<notin> {''RAW'', ''USER_ENTERED''})"
| "fails_local_check (Values_clear spreadsheet_id rng) =
     (spreadsheet_id = [] \<or> rng = [])"
| "fails_local_check (Values_batch_get spreadsheet_id ranges _ _ _) =
     (spreadsheet_id = [] \<or> ranges = [])"
| "fails_local_check (Values_batch_update spreadsheet_id data value_input_option _ _ _) =
     (spreadsheet_id = [] \<or> data = [] \<or> value_input_option \<notin> {''RAW'', ''USER_ENTERED''})"
| "fails_local_check (Values_batch_clear spreadsheet_id ranges) =
     (spreadsheet_id = [] \<or> ranges = [])"
| "fails_local_check (Values_batch_get_by_data_filter spreadsheet_id data_filters _ _ _) =
     (spreadsheet_id = [] \<or> data_filters = [])"
| "fails_local_check (Values_batch_update_by_data_filter spreadsheet_id data
     value_input_option _ _ _) =
     (spreadsheet_id = [] \<or> data = [] \<or> value_input_option \<notin> {''RAW'', ''USER_ENTERED''})"
| "fails_local_check (Values_batch_clear_by_data_filter spreadsheet_id data_filters) =
     (spreadsheet_id = [] \<or> data_filters = [])"
| "fails_local_check (Developer_metadata_get spreadsheet_id metadata_id) =
     (spreadsheet_id = [] \<or> metadata_id = 0)"
| "fails_local_check (Developer_metadata_search spreadsheet_id data_filters) =
     (spreadsheet_id = [] \<or> data_filters = [])"

section \<open>The specification's side\<close>

text \<open>
  The error taxonomy of the specification: the kind by status code, independent of the
  chain of tests in \<open>raise_for_status\<close>.
\<close>

definition spec_kind :: "int \<Rightarrow> error_kind" where
  "spec_kind status =
     (case map_of [(400, ValidationError), (401, AuthenticationError),
                   (403, AuthorizationError), (404, ResourceNotFoundError),
                   (429, QuotaExceededError)] status of
        Some k \<Rightarrow> k
      | None \<Rightarrow> GoogleSheetsAPIError)"

text \<open>
  The message the specification describes: the field \<^verbatim>\<open>error.message\<close> of the payload when
  the payload decodes to an object holding it, else the raw text of the response, else
  the generic message.
\<close>

definition spec_error_field :: "response \<Rightarrow> pyval option" where
  "spec_error_field r =
     (case resp_json r of
        Inr (PDict payload) \<Rightarrow>
          (case map_of payload ''error'' of
             Some (PDict err) \<Rightarrow> map_of err ''message''
           | _ \<Rightarrow> None)
      | _ \<Rightarrow> None)"

definition spec_message :: "response \<Rightarrow> pyval" where
  "spec_message r =
     (case spec_error_field r of
        Some m \<Rightarrow> m
      | None \<Rightarrow>
          if resp_text r \<noteq> [] then PStr (resp_text r)
          else PStr (''HTTP '' @ str_int (resp_status_code r) @ '' error''))"

text \<open>The text each error class puts before the message (lines 222 to 235).\<close>

definition status_prefix :: "int \<Rightarrow> string" where
  "status_prefix status =
     (if status = 400 then ''Bad request: ''
      else if status = 401 then ''Authentication failed: ''
      else if status = 403 then ''Permission denied: ''
      else if status = 404 then ''Resource not found: ''
      else if status = 429 then ''Quota exceeded: ''
      else if 500 \<le> status \<and> status < 600 then ''Server error: ''
      else ''HTTP '' @ str_int status @ '': '')"

text \<open>A configuration value is missing when the variable is unset or empty.\<close>

definition is_missing :: "externals \<Rightarrow> string \<Rightarrow> bool" where
  "is_missing ext var = (os_environ ext var = None \<or> os_environ ext var = Some [])"

text \<open>\<open>n\<close> calls of \<open>get_access_token\<close> in a row, with the result of each.\<close>

fun get_access_token_times ::
  "externals \<Rightarrow> nat \<Rightarrow> state \<Rightarrow> (exn + pyval) list \<times> state" where
  "get_access_token_times ext 0 s = ([], s)"
| "get_access_token_times ext (Suc n) s =
     (case get_access_token ext s of
        (r, s1) \<Rightarrow>
          (case get_access_token_times ext n s1 of (rs, s2) \<Rightarrow> (r # rs, s2)))"

section \<open>Concrete inputs\<close>

text \<open>
  A complete configuration, a fresh process, and the responses used to run the
  definitions on concrete inputs.
\<close>

definition full_environ :: "string \<Rightarrow> string option" where
  "full_environ =
     map_of [(''NANGO_CONNECTION_ID'', ''conn-1''),
             (''NANGO_INTEGRATION_ID'', ''google-sheet''),
             (''NANGO_BASE_URL'', ''https://api.nango.dev''),
             (''NANGO_SECRET_KEY'', ''secret'')]"

definition world ::
  "(string \<Rightarrow> string option) \<Rightarrow> (nat \<Rightarrow> request \<Rightarrow> net_outcome)
     \<Rightarrow> (nat \<Rightarrow> request \<Rightarrow> net_outcome) \<Rightarrow> externals" where
  "world env broker api =
     \<lparr>os_environ = env, py_repr = (\<lambda>v. ''<repr>''), broker_reply = broker,
      api_reply = api, pydantic_init = (\<lambda>model kw. Inr (PDict kw))\<rparr>"

definition fresh :: state where
  "fresh = \<lparr>cached_access_token = PNone, broker_log = [], api_log = [], provider_calls = 0\<rparr>"

definition json_response :: "int \<Rightarrow> string \<Rightarrow> pyval \<Rightarrow> response" where
  "json_response status body v =
     \<lparr>resp_status_code = status, resp_content = body, resp_text = body, resp_json = Inr v\<rparr>"

definition text_response :: "int \<Rightarrow> string \<Rightarrow> response" where
  "text_response status body =
     \<lparr>resp_status_code = status, resp_content = body, resp_text = body,
      resp_json = Inl ''Expecting value: line 1 column 1 (char 0)''\<rparr>"

definition token_response :: "string \<Rightarrow> response" where
  "token_response tok =
     json_response 200
       (''{\"credentials\": {\"access_token\": \"'' @ tok @ ''\"}}'')
       (PDict [(''credentials'', PDict [(''access_token'', PStr tok)])])"

section \<open>Running the definitions\<close>

text \<open>The equations that evaluate the model on a concrete input.\<close>

lemmas world_simps = world_def full_environ_def fresh_def json_response_def text_response_def
  token_response_def required_vars_def is_missing_def

lemmas run_simps = get_access_token_def get_connection_credentials_def missing_vars_def
  getenv_def broker_call_def broker_request_def credentials_of_outcome_def dict_get_def
  http_error_def ok_def py_str_def Let_def api_exn_def prepare_headers_def exchange_def
  on_response_def api_call_def api_request_def refresh_access_token_def BASE_URL_def
  make_api_request_def raise_for_status_def parse_body_def error_message_of_def
  fallback_message_def error_data_of_def

section \<open>Missing configuration\<close>

lemma not_truthy_getenv: "(\<not> truthy (getenv ext var)) = is_missing ext var"
  by (simp add: getenv_def is_missing_def split: option.splits)

lemma missing_vars_filter: "missing_vars ext = filter (is_missing ext) required_vars"
  by (simp add: missing_vars_def not_truthy_getenv)

text \<open>
  Claim C3. When at least one of the four required configuration values is missing,
  \<open>get_connection_credentials\<close> fails with an \<open>AuthenticationError\<close> whose message
  lists, after a fixed prefix, exactly the names of the missing values (each required
  name that is missing, and no other), and it sends nothing to the broker or to the
  spreadsheet service.
\<close>

theorem missing_configuration_is_reported:
  assumes "\<exists>var \<in> set required_vars. is_missing ext var"
  shows "get_connection_credentials ext s =
           (Inl (api_exn AuthenticationError
                   (''Missing required environment variables: ''
                      @ join '', '' (filter (is_missing ext) required_vars))),
            s\<lparr>provider_calls := Suc (provider_calls s)\<rparr>)
         \<and> set (filter (is_missing ext) required_vars)
             = {var \<in> set required_vars. is_missing ext var}
         \<and> broker_log (snd (get_connection_credentials ext s)) = broker_log s
         \<and> api_log (snd (get_connection_credentials ext s)) = api_log s"
proof -
  from assms have "filter (is_missing ext) required_vars \<noteq> []"
    by (simp add: filter_empty_conv)
  then show ?thesis
    by (simp add: get_connection_credentials_def missing_vars_filter Let_def)
qed

theorem missing_configuration_is_reported_witness:
  "get_connection_credentials
     (world (full_environ(''NANGO_BASE_URL'' := None, ''NANGO_SECRET_KEY'' \<mapsto> []))
        (\<lambda>n req. Timeout) (\<lambda>n req. Timeout)) fresh
   = (Inl (api_exn AuthenticationError
        ''Missing required environment variables: NANGO_BASE_URL, NANGO_SECRET_KEY''),
      fresh\<lparr>provider_calls := 1\<rparr>)"
  using missing_configuration_is_reported
    [of "world (full_environ(''NANGO_BASE_URL'' := None, ''NANGO_SECRET_KEY'' \<mapsto> []))
           (\<lambda>n req. Timeout) (\<lambda>n req. Timeout)" fresh]
  by (simp add: required_vars_def is_missing_def world_def full_environ_def fresh_def)

section \<open>The broker's answers\<close>

lemma complete_configuration:
  "(\<forall>var \<in> set required_vars. \<not> is_missing ext var) \<Longrightarrow> missing_vars ext = []"
  by (simp add: missing_vars_filter filter_empty_conv)

lemma credentials_complete:
  assumes "missing_vars ext = []"
  shows "get_connection_credentials ext s =
           (credentials_of_outcome (broker_reply ext (length (broker_log s)) (broker_request ext)),
            s\<lparr>provider_calls := Suc (provider_calls s),
              broker_log := broker_log s @ [broker_request ext]\<rparr>)"
  using assms by (simp add: get_connection_credentials_def broker_call_def Let_def)

text \<open>
  Claim C5, as amended. With the configuration complete, the one request to the broker
  ends in one of these ways. A timeout and a connection failure each give an
  \<open>AuthenticationError\<close> with its own message, and any other exception of the library
  gives one with the exception's text. A response with an error status, 400 to 599,
  gives an \<open>AuthenticationError\<close> with the message for an invalid secret key at 401, for
  a connection not found at 404, and otherwise a message holding the status and the
  body's text. A response with any other status, in the 2xx range or not, is taken as a
  success: the decoded body is returned, and a body that does not decode gives an
  \<open>AuthenticationError\<close> with the decoder's message. No other kind of error comes out
  of the call.
\<close>

theorem broker_outcome_is_mapped:
  assumes "\<forall>var \<in> set required_vars. \<not> is_missing ext var"
    and "out = broker_reply ext (length (broker_log s)) (broker_request ext)"
    and "res = get_connection_credentials ext s"
  shows "(out = Timeout \<longrightarrow>
            fst res = Inl (api_exn AuthenticationError
                             ''Timeout while connecting to Nango authentication service''))
       \<and> (out = ConnectionError \<longrightarrow>
            fst res = Inl (api_exn AuthenticationError
                             ''Failed to connect to Nango authentication service''))
       \<and> (\<forall>msg. out = RequestException msg \<longrightarrow>
            fst res = Inl (api_exn AuthenticationError
                             (''Unexpected error getting Nango credentials: '' @ msg)))
       \<and> (\<forall>r. out = Response r \<and> 400 \<le> resp_status_code r \<and> resp_status_code r < 600 \<longrightarrow>
            fst res = Inl (api_exn AuthenticationError
                             (if resp_status_code r = 401 then ''Invalid Nango secret key''
                              else if resp_status_code r = 404 then ''Nango connection not found''
                              else ''Nango API error: '' @ str_int (resp_status_code r)
                                     @ '' - '' @ resp_text r)))
       \<and> (\<forall>r. out = Response r \<and> (resp_status_code r < 400 \<or> 600 \<le> resp_status_code r) \<longrightarrow>
            fst res = (case resp_json r of
                         Inr body \<Rightarrow> Inr body
                       | Inl msg \<Rightarrow>
                           Inl (api_exn AuthenticationError
                                  (''Unexpected error getting Nango credentials: '' @ msg))))
       \<and> (\<forall>e. fst res = Inl e \<longrightarrow> (\<exists>msg. e = api_exn AuthenticationError msg))
       \<and> broker_log (snd res) = broker_log s @ [broker_request ext]"
proof -
  have m: "missing_vars ext = []"
    using assms(1) by (rule complete_configuration)
  have always: "\<forall>e. credentials_of_outcome out = Inl e \<longrightarrow>
                  (\<exists>msg. e = api_exn AuthenticationError msg)"
    by (cases out) (auto simp: credentials_of_outcome_def split: sum.splits)
  show ?thesis
    using always
    unfolding assms(3) credentials_complete [OF m] assms(2)
    by (auto simp: credentials_of_outcome_def http_error_def split: sum.splits)
qed

theorem broker_outcome_is_mapped_witness:
  "fst (get_connection_credentials
          (world full_environ (\<lambda>n req. Response (text_response 503 ''upstream down''))
             (\<lambda>n req. Timeout)) fresh)
   = Inl (api_exn AuthenticationError ''Nango API error: 503 - upstream down'')"
  using broker_outcome_is_mapped
    [of "world full_environ (\<lambda>n req. Response (text_response 503 ''upstream down''))
           (\<lambda>n req. Timeout)"
        "Response (text_response 503 ''upstream down'')" fresh, OF _ _ refl]
  by (simp add: world_simps str_int_def nat_digits.simps digit_char_def)

text \<open>
  The claim as first stated, that every non-success status of the broker maps to an
  \<open>AuthenticationError\<close> with a status-aware message, fails below 400: a 300 with a
  token body is returned as credentials, and a 302 with a text body gives the decoder's
  message, without the status or the body.
\<close>

theorem broker_redirect_status_is_not_an_error:
  "fst (get_connection_credentials
          (world full_environ
             (\<lambda>n req. Response
                (json_response 300 ''{\"credentials\": {\"access_token\": \"tok-1\"}}''
                   (PDict [(''credentials'', PDict [(''access_token'', PStr ''tok-1'')])])))
             (\<lambda>n req. Timeout)) fresh)
     = Inr (PDict [(''credentials'', PDict [(''access_token'', PStr ''tok-1'')])])
   \<and> fst (get_connection_credentials
          (world full_environ (\<lambda>n req. Response (text_response 302 ''moved''))
             (\<lambda>n req. Timeout)) fresh)
     = Inl (api_exn AuthenticationError
              ''Unexpected error getting Nango credentials: Expecting value: line 1 column 1 (char 0)'')"
  by (simp add: world_simps run_simps)

section \<open>Classifying an unsuccessful response\<close>

lemma error_message_spec:
  assumes "\<forall>v. resp_json r = Inr v \<longrightarrow> resp_text r \<noteq> []"
  shows "error_message_of r = spec_message r"
  using assms
  by (auto simp: error_message_of_def spec_message_def spec_error_field_def dict_get_def
      fallback_message_def split: sum.splits pyval.splits option.splits)

lemma raise_for_status_error:
  assumes "\<not> ok r"
  shows "raise_for_status ext r =
           Inl (Raised \<lparr>kind = spec_kind (resp_status_code r),
                  message = status_prefix (resp_status_code r)
                              @ py_str (py_repr ext) (error_message_of r),
                  status_code = Some (resp_status_code r),
                  response_data = error_data_of r\<rparr>)"
  using assms
  by (simp add: raise_for_status_def Let_def spec_kind_def status_prefix_def ok_def
      http_error_def)

lemma raise_for_status_ok: "ok r \<Longrightarrow> raise_for_status ext r = Inr ()"
  by (simp add: raise_for_status_def)

text \<open>
  Claim C2, as amended. A final response with an error status, 400 to 599, makes
  \<open>raise_for_status\<close>, and with it \<open>make_api_request\<close>, raise the error whose kind the
  status code determines: \<open>ValidationError\<close> at 400, \<open>AuthenticationError\<close> at 401,
  \<open>AuthorizationError\<close> at 403, \<open>ResourceNotFoundError\<close> at 404,
  \<open>QuotaExceededError\<close> at 429 and the base error at any other status of that range.
  The error carries the status code and the decoded payload, and its message is the
  prefix of its class followed by \<^verbatim>\<open>error.message\<close> of the payload when the payload holds
  one, else by the raw text of the response, else by the generic message. A final
  response with a status below 400 or from 600 on, in the 2xx range or not, raises
  nothing: the call returns its body as for a success. A body that decodes is taken to be
  non-empty, as it is for every response of the library.
\<close>

theorem error_status_is_classified:
  assumes "\<forall>v. resp_json r = Inr v \<longrightarrow> resp_text r \<noteq> []"
  shows "(400 \<le> resp_status_code r \<and> resp_status_code r < 600 \<longrightarrow>
            (\<exists>e. raise_for_status ext r = Inl (Raised e)
               \<and> kind e = spec_kind (resp_status_code r)
               \<and> status_code e = Some (resp_status_code r)
               \<and> message e = status_prefix (resp_status_code r)
                               @ py_str (py_repr ext) (spec_message r)
               \<and> response_data e = (case resp_json r of Inr v \<Rightarrow> v | Inl msg \<Rightarrow> PNone)
               \<and> (\<forall>method endpoint headers params json_data data retry_auth s s'.
                     exchange ext method endpoint headers params json_data data retry_auth s
                       = (Inr r, s') \<longrightarrow>
                     make_api_request ext method endpoint headers params json_data data
                       retry_auth s = (Inl (Raised e), s'))))
       \<and> (resp_status_code r < 400 \<or> 600 \<le> resp_status_code r \<longrightarrow>
            raise_for_status ext r = Inr ()
            \<and> (\<forall>method endpoint headers params json_data data retry_auth s s'.
                  exchange ext method endpoint headers params json_data data retry_auth s
                    = (Inr r, s') \<longrightarrow>
                  make_api_request ext method endpoint headers params json_data data
                    retry_auth s = (Inr (parse_body r), s')))"
proof (intro conjI impI)
  assume "400 \<le> resp_status_code r \<and> resp_status_code r < 600"
  then have bad: "\<not> ok r"
    by (simp add: ok_def http_error_def)
  let ?e = "\<lparr>kind = spec_kind (resp_status_code r),
             message = status_prefix (resp_status_code r)
                         @ py_str (py_repr ext) (spec_message r),
             status_code = Some (resp_status_code r),
             response_data = error_data_of r\<rparr>"
  have raised: "raise_for_status ext r = Inl (Raised ?e)"
    by (simp add: raise_for_status_error [OF bad] error_message_spec [OF assms])
  have whole: "\<forall>method endpoint headers params json_data data retry_auth s s'.
                 exchange ext method endpoint headers params json_data data retry_auth s
                   = (Inr r, s') \<longrightarrow>
                 make_api_request ext method endpoint headers params json_data data
                   retry_auth s = (Inl (Raised ?e), s')"
    by (simp add: make_api_request_def raised)
  have data: "response_data ?e = (case resp_json r of Inr v \<Rightarrow> v | Inl msg \<Rightarrow> PNone)"
    by (simp add: error_data_of_def split: sum.splits)
  from raised whole data
  show "\<exists>e. raise_for_status ext r = Inl (Raised e)
               \<and> kind e = spec_kind (resp_status_code r)
               \<and> status_code e = Some (resp_status_code r)
               \<and> message e = status_prefix (resp_status_code r)
                               @ py_str (py_repr ext) (spec_message r)
               \<and> response_data e = (case resp_json r of Inr v \<Rightarrow> v | Inl msg \<Rightarrow> PNone)
               \<and> (\<forall>method endpoint headers params json_data data retry_auth s s'.
                     exchange ext method endpoint headers params json_data data retry_auth s
                       = (Inr r, s') \<longrightarrow>
                     make_api_request ext method endpoint headers params json_data data
                       retry_auth s = (Inl (Raised e), s'))"
    by (intro exI [of _ ?e]) simp
next
  assume "resp_status_code r < 400 \<or> 600 \<le> resp_status_code r"
  then have good: "ok r"
    by (auto simp: ok_def http_error_def)
  then show "raise_for_status ext r = Inr ()"
    by (rule raise_for_status_ok)
  from good
  show "\<forall>method endpoint headers params json_data data retry_auth s s'.
          exchange ext method endpoint headers params json_data data retry_auth s
            = (Inr r, s') \<longrightarrow>
          make_api_request ext method endpoint headers params json_data data
            retry_auth s = (Inr (parse_body r), s')"
    by (simp add: make_api_request_def raise_for_status_ok)
qed

theorem error_status_is_classified_witness:
  "\<exists>e. make_api_request
          (world full_environ (\<lambda>n req. Response (token_response ''tok-1''))
             (\<lambda>n req. Response
                (json_response 404 ''{\"error\": {\"message\": \"Not found\"}}''
                   (PDict [(''error'', PDict [(''message'', PStr ''Not found'')])]))))
          ''GET'' ''/v4/spreadsheets/sheet-1'' None PNone PNone PNone False fresh
        = (Inl (Raised e),
           snd (exchange
                  (world full_environ (\<lambda>n req. Response (token_response ''tok-1''))
                     (\<lambda>n req. Response
                        (json_response 404 ''{\"error\": {\"message\": \"Not found\"}}''
                           (PDict [(''error'', PDict [(''message'', PStr ''Not found'')])]))))
                  ''GET'' ''/v4/spreadsheets/sheet-1'' None PNone PNone PNone False fresh))
      \<and> kind e = ResourceNotFoundError \<and> status_code e = Some 404
      \<and> message e = ''Resource not found: Not found''"
proof -
  let ?r = "json_response 404 ''{\"error\": {\"message\": \"Not found\"}}''
              (PDict [(''error'', PDict [(''message'', PStr ''Not found'')])])"
  let ?ext = "world full_environ (\<lambda>n req. Response (token_response ''tok-1''))
                (\<lambda>n req. Response ?r)"
  let ?ex = "exchange ?ext ''GET'' ''/v4/spreadsheets/sheet-1'' None PNone PNone PNone False fresh"
  have "fst ?ex = Inr ?r"
    by (simp add: world_simps run_simps)
  then have ex: "?ex = (Inr ?r, snd ?ex)"
    by (simp add: prod_eq_iff)
  have wf: "\<forall>v. resp_json ?r = Inr v \<longrightarrow> resp_text ?r \<noteq> []"
    by (simp add: json_response_def)
  have st: "400 \<le> resp_status_code ?r \<and> resp_status_code ?r < 600"
    by (simp add: json_response_def)
  from error_status_is_classified [of ?r ?ext, OF wf, THEN conjunct1, rule_format, OF st]
  obtain e where e: "kind e = spec_kind (resp_status_code ?r)"
      "status_code e = Some (resp_status_code ?r)"
      "message e = status_prefix (resp_status_code ?r) @ py_str (py_repr ?ext) (spec_message ?r)"
      "\<forall>method endpoint headers params json_data data retry_auth s s'.
         exchange ?ext method endpoint headers params json_data data retry_auth s
           = (Inr ?r, s') \<longrightarrow>
         make_api_request ?ext method endpoint headers params json_data data
           retry_auth s = (Inl (Raised e), s')"
    by blast
  from e(4) ex
  have "make_api_request ?ext ''GET'' ''/v4/spreadsheets/sheet-1'' None PNone PNone PNone
          False fresh = (Inl (Raised e), snd ?ex)"
    by blast
  moreover from e(1) have "kind e = ResourceNotFoundError"
    by (simp add: json_response_def spec_kind_def)
  moreover from e(2) have "status_code e = Some 404"
    by (simp add: json_response_def)
  moreover from e(3) have "message e = ''Resource not found: Not found''"
    by (simp add: json_response_def status_prefix_def spec_message_def spec_error_field_def
        py_str_def)
  ultimately show ?thesis by blast
qed

text \<open>
  The claim as first stated, that every non-2xx status other than the five named raises
  the base error, fails at 304: \<^verbatim>\<open>response.ok\<close> holds, nothing is raised, and the call
  returns \<^verbatim>\<open>None\<close> for the empty body.
\<close>

theorem not_modified_raises_nothing:
  "raise_for_status (world full_environ (\<lambda>n req. Timeout) (\<lambda>n req. Timeout))
     (text_response 304 []) = Inr ()
   \<and> fst (make_api_request
            (world full_environ (\<lambda>n req. Response (token_response ''tok-1''))
               (\<lambda>n req. Response (text_response 304 [])))
            ''GET'' ''/v4/spreadsheets/sheet-1'' None PNone PNone PNone True fresh)
       = Inr PNone"
  by (simp add: world_simps run_simps)

section \<open>The token cache\<close>

lemma credentials_effects:
  "api_log (snd (get_connection_credentials ext s)) = api_log s
   \<and> provider_calls (snd (get_connection_credentials ext s)) = Suc (provider_calls s)
   \<and> cached_access_token (snd (get_connection_credentials ext s)) = cached_access_token s"
  by (simp add: get_connection_credentials_def broker_call_def Let_def)

lemma get_access_token_hit:
  "cached_access_token s \<noteq> PNone \<Longrightarrow> get_access_token ext s = (Inr (cached_access_token s), s)"
  by (simp add: get_access_token_def)

lemma get_access_token_times_hit:
  "cached_access_token s \<noteq> PNone \<Longrightarrow>
     get_access_token_times ext n s = (replicate n (Inr (cached_access_token s)), s)"
  by (induction n) (simp_all add: get_access_token_hit)

lemma get_access_token_miss_calls:
  assumes "cached_access_token s = PNone"
  shows "provider_calls (snd (get_access_token ext s)) = Suc (provider_calls s)"
proof -
  obtain r s1 where c: "get_connection_credentials ext s = (r, s1)"
    by (cases "get_connection_credentials ext s")
  with credentials_effects [of ext s] have "provider_calls s1 = Suc (provider_calls s)"
    by simp
  with assms c show ?thesis
    by (auto simp: get_access_token_def Let_def split: sum.splits)
qed

text \<open>
  What holds of the cache. While it holds a value, any number of calls of
  \<open>get_access_token\<close> in a row each return it and leave the state as it was, so the
  provider is not entered and nothing is sent. On a miss the provider is entered exactly
  once; when it returns a JSON object whose \<^verbatim>\<open>credentials.access_token\<close> is a value that
  counts as true, that value is stored and returned; when the key \<^verbatim>\<open>credentials\<close> or the
  key \<^verbatim>\<open>access_token\<close> is absent from the object, or the token is \<^verbatim>\<open>null\<close>, the call fails
  with an \<open>AuthenticationError\<close> and the cache stays empty.
\<close>

lemma token_cache_hit_and_miss:
  "(cached_access_token s \<noteq> PNone \<longrightarrow>
      get_access_token_times ext n s = (replicate n (Inr (cached_access_token s)), s))
   \<and> (cached_access_token s = PNone \<longrightarrow>
        provider_calls (snd (get_access_token ext s)) = Suc (provider_calls s)
        \<and> (\<forall>body s1. get_connection_credentials ext s = (Inr (PDict body), s1) \<longrightarrow>
             (\<forall>c tok. map_of body ''credentials'' = Some (PDict c)
                      \<and> map_of c ''access_token'' = Some tok \<and> truthy tok \<longrightarrow>
                 get_access_token ext s = (Inr tok, s1\<lparr>cached_access_token := tok\<rparr>))
             \<and> (map_of body ''credentials'' = None
                 \<or> (\<exists>c. map_of body ''credentials'' = Some (PDict c)
                         \<and> map_of c ''access_token'' = None) \<longrightarrow>
                 get_access_token ext s =
                   (Inl (api_exn AuthenticationError
                           ''No access token found in Nango credentials''),
                    s1\<lparr>cached_access_token := PNone\<rparr>))
             \<and> (\<forall>c. map_of body ''credentials'' = Some (PDict c)
                      \<and> map_of c ''access_token'' = Some PNone \<longrightarrow>
                 get_access_token ext s =
                   (Inl (api_exn AuthenticationError
                           ''No access token found in Nango credentials''),
                    s1\<lparr>cached_access_token := PNone\<rparr>))))"
proof (intro conjI impI allI)
  assume "cached_access_token s \<noteq> PNone"
  then show "get_access_token_times ext n s = (replicate n (Inr (cached_access_token s)), s)"
    by (rule get_access_token_times_hit)
next
  assume "cached_access_token s = PNone"
  then show "provider_calls (snd (get_access_token ext s)) = Suc (provider_calls s)"
    by (rule get_access_token_miss_calls)
next
  fix body s1 c tok
  assume "cached_access_token s = PNone"
    and "get_connection_credentials ext s = (Inr (PDict body), s1)"
    and "map_of body ''credentials'' = Some (PDict c)
           \<and> map_of c ''access_token'' = Some tok \<and> truthy tok"
  then show "get_access_token ext s = (Inr tok, s1\<lparr>cached_access_token := tok\<rparr>)"
    by (simp add: get_access_token_def dict_get_def Let_def)
next
  fix body s1
  assume miss: "cached_access_token s = PNone"
    and c: "get_connection_credentials ext s = (Inr (PDict body), s1)"
    and "map_of body ''credentials'' = None
           \<or> (\<exists>c. map_of body ''credentials'' = Some (PDict c)
                   \<and> map_of c ''access_token'' = None)"
  then show "get_access_token ext s =
               (Inl (api_exn AuthenticationError
                       ''No access token found in Nango credentials''),
                s1\<lparr>cached_access_token := PNone\<rparr>)"
    by (auto simp: get_access_token_def dict_get_def Let_def)
next
  fix body s1 c
  assume "cached_access_token s = PNone"
    and "get_connection_credentials ext s = (Inr (PDict body), s1)"
    and "map_of body ''credentials'' = Some (PDict c)
           \<and> map_of c ''access_token'' = Some PNone"
  then show "get_access_token ext s =
               (Inl (api_exn AuthenticationError
                       ''No access token found in Nango credentials''),
                s1\<lparr>cached_access_token := PNone\<rparr>)"
    by (simp add: get_access_token_def dict_get_def Let_def)
qed

section \<open>One retry after a 401\<close>







section \<open>The body of a successful response\<close>

text \<open>
  The exchange ends on the first response unless that response is a 401 and
  \<^verbatim>\<open>retry_auth\<close> is set.
\<close>

lemma exchange_first_response:
  assumes "prepare_headers ext headers s = (Inr hs, s1)"
    and "api_reply ext (length (api_log s1))
           (api_request method endpoint hs params json_data data) = Response r"
    and "resp_status_code r \<noteq> 401 \<or> \<not> retry_auth"
  shows "exchange ext method endpoint headers params json_data data retry_auth s =
           (Inr r, s1\<lparr>api_log := api_log s1
                        @ [api_request method endpoint hs params json_data data]\<rparr>)"
  using assms by (auto simp: exchange_def on_response_def api_call_def)

text \<open>
  Claim C7. When the exchange ends on a response that is \<^verbatim>\<open>ok\<close>, \<open>make_api_request\<close>
  returns the decoded JSON value if the body is present and decodes, the body's text
  under the key \<^verbatim>\<open>content\<close> if the body is present and does not decode, and \<^verbatim>\<open>None\<close> if
  the body is absent.
\<close>

theorem successful_body_is_parsed:
  assumes "exchange ext method endpoint headers params json_data data retry_auth s = (Inr r, s')"
    and "ok r"
  shows "(\<forall>v. resp_content r \<noteq> [] \<and> resp_json r = Inr v \<longrightarrow>
            make_api_request ext method endpoint headers params json_data data retry_auth s
              = (Inr v, s'))
       \<and> (\<forall>msg. resp_content r \<noteq> [] \<and> resp_json r = Inl msg \<longrightarrow>
            make_api_request ext method endpoint headers params json_data data retry_auth s
              = (Inr (PDict [(''content'', PStr (resp_text r))]), s'))
       \<and> (resp_content r = [] \<longrightarrow>
            make_api_request ext method endpoint headers params json_data data retry_auth s
              = (Inr PNone, s'))"
  using assms by (simp add: make_api_request_def raise_for_status_def parse_body_def)

theorem successful_body_is_parsed_witness:
  "fst (make_api_request
          (world full_environ (\<lambda>n req. Response (token_response ''tok-1''))
             (\<lambda>n req. Response (text_response 200 ''pong'')))
          ''GET'' ''/v4/spreadsheets/sheet-1'' None PNone PNone PNone True fresh)
   = Inr (PDict [(''content'', PStr ''pong'')])"
proof -
  let ?ext = "world full_environ (\<lambda>n req. Response (token_response ''tok-1''))
                (\<lambda>n req. Response (text_response 200 ''pong''))"
  let ?ex = "exchange ?ext ''GET'' ''/v4/spreadsheets/sheet-1'' None PNone PNone PNone True fresh"
  have "fst ?ex = Inr (text_response 200 ''pong'')"
    by (simp add: world_simps run_simps)
  then have ex: "?ex = (Inr (text_response 200 ''pong''), snd ?ex)"
    by (simp add: prod_eq_iff)
  have good: "ok (text_response 200 ''pong'')"
    by (simp add: ok_def http_error_def text_response_def)
  from successful_body_is_parsed [OF ex good] show ?thesis
    by (simp add: text_response_def)
qed

section \<open>Local validation\<close>

text \<open>
  Claim C8. For each operation, arguments that fail a local check (a required argument
  is empty, or \<^verbatim>\<open>value_input_option\<close> is not one of the two allowed values) raise a
  \<open>ValidationError\<close> and leave the state as it was: no token is fetched and no request
  is sent.
\<close>

theorem local_check_fails_before_network:
  assumes "fails_local_check c"
  shows "\<exists>msg. invoke ext c s = (Inl (api_exn ValidationError msg), s)"
proof (cases c)
  case Spreadsheets_create
  with assms show ?thesis by (auto simp: spreadsheets_create_def invalid_def)
next
  case Spreadsheets_get
  with assms show ?thesis by (auto simp: spreadsheets_get_def invalid_def)
next
  case Spreadsheets_batch_update
  with assms show ?thesis by (auto simp: spreadsheets_batch_update_def invalid_def)
next
  case Spreadsheets_get_by_data_filter
  with assms show ?thesis by (auto simp: spreadsheets_get_by_data_filter_def invalid_def)
next
  case Values_get
  with assms show ?thesis by (auto simp: values_get_def invalid_def)
next
  case Values_update
  with assms show ?thesis by (auto simp: values_update_def invalid_def value_input_options_def)
next
  case Values_append
  with assms show ?thesis by (auto simp: values_append_def invalid_def value_input_options_def)
next
  case Values_clear
  with assms show ?thesis by (auto simp: values_clear_def invalid_def)
next
  case Values_batch_get
  with assms show ?thesis by (auto simp: values_batch_get_def invalid_def)
next
  case Values_batch_update
  with assms show ?thesis
    by (auto simp: values_batch_update_def invalid_def value_input_options_def)
next
  case Values_batch_clear
  with assms show ?thesis by (auto simp: values_batch_clear_def invalid_def)
next
  case Values_batch_get_by_data_filter
  with assms show ?thesis by (auto simp: values_batch_get_by_data_filter_def invalid_def)
next
  case Values_batch_update_by_data_filter
  with assms show ?thesis
    by (auto simp: values_batch_update_by_data_filter_def invalid_def value_input_options_def)
next
  case Values_batch_clear_by_data_filter
  with assms show ?thesis by (auto simp: values_batch_clear_by_data_filter_def invalid_def)
next
  case Developer_metadata_get
  with assms show ?thesis by (auto simp: developer_metadata_get_def invalid_def)
next
  case Developer_metadata_search
  with assms show ?thesis by (auto simp: developer_metadata_search_def invalid_def)
qed

theorem local_check_fails_before_network_witness:
  "\<exists>msg. invoke (world full_environ (\<lambda>n req. Timeout) (\<lambda>n req. Timeout))
            (Values_update ''sheet-1'' ''A1:B2'' [[PStr ''a'', PStr ''b'']] ''FORMULA''
               None None None None) fresh
          = (Inl (api_exn ValidationError msg), fresh)"
  using local_check_fails_before_network
    [of "Values_update ''sheet-1'' ''A1:B2'' [[PStr ''a'', PStr ''b'']] ''FORMULA''
           None None None None"
        "world full_environ (\<lambda>n req. Timeout) (\<lambda>n req. Timeout)" fresh]
  by simp

text \<open>
  Claim C10. \<open>developer_metadata_get\<close> with a non-empty spreadsheet id and the metadata
  id 0 raises the \<open>ValidationError\<close> saying that \<^verbatim>\<open>metadata_id\<close> is required, and
  leaves the state as it was: the test for a required argument takes 0 for a missing
  one.
\<close>

theorem metadata_id_zero_is_rejected:
  assumes "spreadsheet_id \<noteq> []"
  shows "developer_metadata_get ext spreadsheet_id 0 s =
           (Inl (api_exn ValidationError ''metadata_id is required''), s)"
  using assms by (simp add: developer_metadata_get_def invalid_def)

theorem metadata_id_zero_is_rejected_witness:
  "developer_metadata_get (world full_environ (\<lambda>n req. Timeout) (\<lambda>n req. Timeout))
     ''sheet-1'' 0 fresh
   = (Inl (api_exn ValidationError ''metadata_id is required''), fresh)"
  using metadata_id_zero_is_rejected
    [of "''sheet-1''" "world full_environ (\<lambda>n req. Timeout) (\<lambda>n req. Timeout)" fresh]
  by simp

section \<open>Where the code departs from the specification\<close>

text \<open>
  Claim C9. The claim is that a value extracted during a failed fetch is never returned
  by a later call. The code stores the extracted value in the cache before it tests it.
  When the broker answers with an empty \<^verbatim>\<open>access_token\<close>, the first call of
  \<open>get_access_token\<close> fails with the \<open>AuthenticationError\<close> and leaves the empty string
  in the cache; the second call finds the cache not \<^verbatim>\<open>None\<close> and returns the empty
  string, without entering the provider again.
\<close>

theorem failed_fetch_leaves_empty_token_cached:
  "fst (get_access_token_times
          (world full_environ (\<lambda>n req. Response (token_response [])) (\<lambda>n req. Timeout))
          2 fresh)
     = [Inl (api_exn AuthenticationError ''No access token found in Nango credentials''),
        Inr (PStr [])]
   \<and> provider_calls
        (snd (get_access_token_times
                (world full_environ (\<lambda>n req. Response (token_response []))
                   (\<lambda>n req. Timeout))
                2 fresh)) = 1"
  by (simp add: numeral_2_eq_2 world_simps run_simps)

text \<open>
  Claim C6. The claim is that no raw exception crosses the boundary of an operation.
  When the service answers \<^verbatim>\<open>spreadsheets_get\<close> with status 200 and an empty body,
  \<open>make_api_request\<close> returns \<^verbatim>\<open>None\<close> and the unpacking \<^verbatim>\<open>Spreadsheet(**None)\<close> raises a
  \<^verbatim>\<open>TypeError\<close>. When the broker answers with \<^verbatim>\<open>credentials\<close> set to \<^verbatim>\<open>null\<close>, the lookup of
  the token raises an \<^verbatim>\<open>AttributeError\<close>, which \<^verbatim>\<open>values_get\<close> lets through.
\<close>

theorem raw_exception_crosses_operation_boundary:
  "fst (invoke
          (world full_environ (\<lambda>n req. Response (token_response ''tok-1''))
             (\<lambda>n req. Response (text_response 200 [])))
          (Spreadsheets_get ''sheet-1'' None None None) fresh)
     = Inl TypeError
   \<and> fst (invoke
          (world full_environ
             (\<lambda>n req. Response (json_response 200 ''{\"credentials\": null}''
                                   (PDict [(''credentials'', PNone)])))
             (\<lambda>n req. Response (text_response 200 [])))
          (Values_get ''sheet-1'' ''A1'' None None None) fresh)
     = Inl AttributeError"
  by (simp add: world_simps run_simps spreadsheets_get_def values_get_def as_model_def
      construct_def put_str_def put_flag_def put_list_def)

text \<open>
  Claim C4. The claim is that \<open>get_access_token\<close> fails with an
  \<open>AuthenticationError\<close> when the field \<^verbatim>\<open>credentials.access_token\<close> is absent from the
  broker's body. When the body is \<^verbatim>\<open>{"credentials": null}\<close>, or is not an object at all,
  the field is absent and the lookup raises an \<^verbatim>\<open>AttributeError\<close> that nothing catches;
  the sibling case of an object without the key \<^verbatim>\<open>credentials\<close> gives the
  \<open>AuthenticationError\<close>.
\<close>

theorem absent_token_field_raises_attribute_error:
  "fst (get_access_token
          (world full_environ
             (\<lambda>n req. Response (json_response 200 ''{\"credentials\": null}''
                                   (PDict [(''credentials'', PNone)])))
             (\<lambda>n req. Timeout)) fresh) = Inl AttributeError
   \<and> fst (get_access_token
          (world full_environ
             (\<lambda>n req. Response (json_response 200 ''[]'' (PList [])))
             (\<lambda>n req. Timeout)) fresh) = Inl AttributeError
   \<and> fst (get_access_token
          (world full_environ
             (\<lambda>n req. Response (json_response 200 ''{}'' (PDict [])))
             (\<lambda>n req. Timeout)) fresh)
       = Inl (api_exn AuthenticationError ''No access token found in Nango credentials'')"
  by (simp add: world_simps run_simps)

end
